theory Spec2Isabelle
  imports Main
begin

section \<open>Data model\<close>

text \<open>
  The notification package sends one message to one user through an ordered list of
  channels (\<^verbatim>\<open>service.py\<close>), each channel being one transport (\<^verbatim>\<open>channels.py\<close>), and
  keeps one row per attempt in the table of \<^verbatim>\<open>Notification\<close> (\<^verbatim>\<open>models.py\<close>).
  \<^verbatim>\<open>tasks.py\<close> wraps the service in a Celery task with retries.

  Python values that may be \<^verbatim>\<open>None\<close> are options; a string field that is tested with
  \<^verbatim>\<open>not x\<close> is falsy when it is \<^verbatim>\<open>None\<close> or empty.
\<close>

definition truthy :: "string option \<Rightarrow> bool" where
  "truthy x = (case x of None \<Rightarrow> False | Some s \<Rightarrow> s \<noteq> [])"

text \<open>
  The exceptions that travel through the code. All of them are subclasses of Python's
  \<^verbatim>\<open>Exception\<close>, so an \<^verbatim>\<open>except Exception\<close> clause catches each of them.
  \<^verbatim>\<open>Retry\<close> and \<^verbatim>\<open>MaxRetriesExceededError\<close> are the two exceptions of
  \<^verbatim>\<open>celery.exceptions\<close> that \<^verbatim>\<open>Task.retry\<close> raises; \<^verbatim>\<open>Retry\<close> carries the
  exception it was given and the delay. \<^verbatim>\<open>DoesNotExist\<close> is \<^verbatim>\<open>User.DoesNotExist\<close>;
  \<^verbatim>\<open>RelatedObjectDoesNotExist\<close> is what Django raises when a user has no profile row, and
  it is also an \<^verbatim>\<open>AttributeError\<close>; \<^verbatim>\<open>OperationalError\<close> is a failure of the
  database itself.
\<close>

datatype exn =
    DoesNotExist
  | RequestException string
  | TwilioRestException int string
  | AttributeError string
  | ValueError string
  | OtherException string
  | RelatedObjectDoesNotExist
  | OperationalError string
  | MaxRetriesExceededError
  | Retry "exn option" nat

text \<open>
  \<^verbatim>\<open>models.py\<close>: the profile of a user, the user, and the notification row.
  \<^verbatim>\<open>user.userprofile\<close> is the reverse side of a one-to-one field: reading it queries
  the profile table, and the read returns the profile or raises. \<^verbatim>\<open>user.email\<close> is
  a column of the user that is already loaded.
\<close>

record UserProfile =
  phone_number :: "string option"
  telegram_chat_id :: "string option"

record User =
  user_id :: nat
  username :: string
  email :: string
  userprofile :: "exn + UserProfile"

text \<open>
  \<^verbatim>\<open>getattr(user, 'userprofile', None)\<close>: the default replaces an
  \<^verbatim>\<open>AttributeError\<close> only, which covers the missing profile; any other exception of
  the read leaves \<^verbatim>\<open>getattr\<close>.
\<close>

definition getattr_userprofile :: "User \<Rightarrow> exn + UserProfile option" where
  "getattr_userprofile u =
     (case userprofile u of
        Inr profile \<Rightarrow> Inr (Some profile)
      | Inl RelatedObjectDoesNotExist \<Rightarrow> Inr None
      | Inl (AttributeError a) \<Rightarrow> Inr None
      | Inl e \<Rightarrow> Inl e)"

record Notification =
  pk :: nat
  n_user :: User
  n_subject :: string
  n_message :: string
  status :: string
  sent_via :: string
  created_at :: nat
  sent_at :: "nat option"

text \<open>
  The table of notifications, keyed by primary key. \<^verbatim>\<open>Notification.objects.create\<close>
  inserts a row under the next key; \<^verbatim>\<open>notification.save()\<close> writes all fields of
  the object under its key (an update when the row exists, an insert otherwise). The
  journal keeps every write in order, so that what one update wrote can be stated.
  The clock is the time \<^verbatim>\<open>auto_now_add\<close> fields are stamped with. Both calls are
  modelled as succeeding.
\<close>

datatype db_write = Insert Notification | Update Notification

record database =
  rows :: "nat \<rightharpoonup> Notification"
  next_pk :: nat
  journal :: "db_write list"
  now :: nat

text \<open>
  \<^verbatim>\<open>Notification.objects.create(user=.., subject=.., message=.., status=..)\<close>: the
  fields that are not given take the defaults of \<^verbatim>\<open>models.py\<close>: \<^verbatim>\<open>sent_via\<close> is a
  \<^verbatim>\<open>CharField(blank=True)\<close> and defaults to the empty string, \<^verbatim>\<open>sent_at\<close> is
  nullable and defaults to \<^verbatim>\<open>None\<close>, \<^verbatim>\<open>created_at\<close> is \<^verbatim>\<open>auto_now_add\<close>.
\<close>

definition objects_create :: "User \<Rightarrow> string \<Rightarrow> string \<Rightarrow> string \<Rightarrow> database \<Rightarrow> Notification \<times> database" where
  "objects_create u subj msg st db =
     (let n = \<lparr>pk = next_pk db, n_user = u, n_subject = subj, n_message = msg,
                status = st, sent_via = [], created_at = now db, sent_at = None\<rparr>
      in (n, db\<lparr>rows := (rows db)(pk n \<mapsto> n), next_pk := Suc (next_pk db),
                  journal := journal db @ [Insert n]\<rparr>))"

definition save :: "Notification \<Rightarrow> database \<Rightarrow> database" where
  "save n db =
     db\<lparr>rows := (rows db)(pk n \<mapsto> n),
        journal := journal db @ [if rows db (pk n) = None then Insert n else Update n]\<rparr>"

section \<open>Channels\<close>

text \<open>
  What the channels read and call outside the package: the Django settings and the three
  transports. A setting that is not defined is \<^verbatim>\<open>None\<close> here; reading it as
  \<^verbatim>\<open>settings.X\<close> raises \<^verbatim>\<open>AttributeError\<close>, reading it with \<^verbatim>\<open>getattr(.., None)\<close>
  or behind \<^verbatim>\<open>hasattr\<close> does not. Each transport call either returns or raises.
\<close>

record settings =
  EMAIL_HOST_USER :: "string option"
  EMAIL_HOST_PASSWORD :: "string option"
  EMAIL_HOST :: "string option"
  DEFAULT_FROM_EMAIL :: "string option"
  TWILIO_ACCOUNT_SID :: "string option"
  TWILIO_AUTH_TOKEN :: "string option"
  TWILIO_PHONE_NUMBER :: "string option"
  TELEGRAM_BOT_TOKEN :: "string option"

definition read_setting :: "string \<Rightarrow> string option \<Rightarrow> exn + string" where
  "read_setting name v = (case v of None \<Rightarrow> Inl (AttributeError name) | Some s \<Rightarrow> Inr s)"

datatype jvalue = JNull | JBool bool | JNumber int | JString string

definition jtruthy :: "jvalue option \<Rightarrow> bool" where
  "jtruthy v = (case v of None \<Rightarrow> False | Some JNull \<Rightarrow> False | Some (JBool b) \<Rightarrow> b
                | Some (JNumber k) \<Rightarrow> k \<noteq> 0 | Some (JString s) \<Rightarrow> s \<noteq> [])"

text \<open>
  An HTTP response: \<^verbatim>\<open>response.json()\<close> raises when the body is not JSON, and a body
  that is JSON but not an object makes \<^verbatim>\<open>response_data.get\<close> raise; both are the
  \<^verbatim>\<open>Inl\<close> case. An object is a list of keys and values, read with \<^verbatim>\<open>get\<close>.
\<close>

record response =
  status_code :: int
  json :: "exn + (string \<times> jvalue) list"

record world =
  settings :: settings
  send_mail :: "string \<Rightarrow> string \<Rightarrow> string \<Rightarrow> string list \<Rightarrow> exn + nat"
  requests_post :: "string \<Rightarrow> (string \<times> string) list \<Rightarrow> nat \<Rightarrow> exn + response"
  messages_create :: "string \<times> string \<Rightarrow> string \<Rightarrow> string \<Rightarrow> string \<Rightarrow> exn + string"
  User_objects_get :: "nat \<Rightarrow> exn + User"

text \<open>
  \<^verbatim>\<open>NotificationChannel\<close>: the abstract class is a name and a \<^verbatim>\<open>send\<close> method. The
  method's result is \<^verbatim>\<open>Inr b\<close> when it returns \<^verbatim>\<open>b\<close> and \<^verbatim>\<open>Inl e\<close> when it raises.
\<close>

record NotificationChannel =
  channel_name :: string
  send :: "User \<Rightarrow> string \<Rightarrow> string \<Rightarrow> exn + bool"

subsection \<open>EmailChannel\<close>

text \<open>The body of the \<^verbatim>\<open>try\<close> block of \<^verbatim>\<open>EmailChannel.send\<close>.\<close>

definition EmailChannel_try :: "world \<Rightarrow> User \<Rightarrow> string \<Rightarrow> string \<Rightarrow> exn + bool" where
  "EmailChannel_try w u subj msg =
     (case read_setting ''EMAIL_HOST_USER'' (EMAIL_HOST_USER (settings w)) of
        Inl e \<Rightarrow> Inl e
      | Inr host_user \<Rightarrow>
     (case read_setting ''EMAIL_HOST_PASSWORD'' (EMAIL_HOST_PASSWORD (settings w)) of
        Inl e \<Rightarrow> Inl e
      | Inr host_password \<Rightarrow>
     (case read_setting ''EMAIL_HOST'' (EMAIL_HOST (settings w)) of
        Inl e \<Rightarrow> Inl e
      | Inr host \<Rightarrow>
        if \<not> (host_user \<noteq> [] \<and> host_password \<noteq> [] \<and> host \<noteq> []) then Inr False
        else
     (case read_setting ''DEFAULT_FROM_EMAIL'' (DEFAULT_FROM_EMAIL (settings w)) of
        Inl e \<Rightarrow> Inl e
      | Inr from_email \<Rightarrow>
     (case send_mail w subj msg from_email [email u] of
        Inl e \<Rightarrow> Inl e
      | Inr _ \<Rightarrow> Inr True)))))"

definition EmailChannel_send :: "world \<Rightarrow> User \<Rightarrow> string \<Rightarrow> string \<Rightarrow> exn + bool" where
  "EmailChannel_send w u subj msg =
     (if email u = [] then Inr False
      else case EmailChannel_try w u subj msg of
             Inr b \<Rightarrow> Inr b
           | Inl e \<Rightarrow> Inr False)"

definition EmailChannel :: "world \<Rightarrow> NotificationChannel" where
  "EmailChannel w = \<lparr>channel_name = ''email'', send = EmailChannel_send w\<rparr>"

subsection \<open>TwilioSMSChannel\<close>

text \<open>
  The constructor builds the client when both credentials are defined and non-empty, and
  leaves it \<^verbatim>\<open>None\<close> otherwise.
\<close>

definition TwilioSMSChannel_client :: "world \<Rightarrow> (string \<times> string) option" where
  "TwilioSMSChannel_client w =
     (case (TWILIO_ACCOUNT_SID (settings w), TWILIO_AUTH_TOKEN (settings w)) of
        (Some sid, Some token) \<Rightarrow> if sid \<noteq> [] \<and> token \<noteq> [] then Some (sid, token) else None
      | _ \<Rightarrow> None)"

definition TwilioSMSChannel_try :: "world \<Rightarrow> string \<times> string \<Rightarrow> string \<Rightarrow> string \<Rightarrow> string \<Rightarrow> exn + bool" where
  "TwilioSMSChannel_try w client phone subj msg =
     (let full_message = (if subj \<noteq> [] then subj @ [CHR 0x0A] @ msg else msg) in
      case read_setting ''TWILIO_PHONE_NUMBER'' (TWILIO_PHONE_NUMBER (settings w)) of
        Inl e \<Rightarrow> Inl e
      | Inr from_number \<Rightarrow>
     (case messages_create w client full_message from_number phone of
        Inl e \<Rightarrow> Inl e
      | Inr sid \<Rightarrow> Inr True))"

text \<open>
  \<^verbatim>\<open>send\<close> tests the client, reads the profile and tests the phone number before its
  \<^verbatim>\<open>try\<close> block: an exception of the profile read is not caught.
\<close>

definition TwilioSMSChannel_send :: "world \<Rightarrow> (string \<times> string) option \<Rightarrow> User \<Rightarrow> string \<Rightarrow> string \<Rightarrow> exn + bool" where
  "TwilioSMSChannel_send w client u subj msg =
     (case client of
        None \<Rightarrow> Inr False
      | Some c \<Rightarrow>
     (case getattr_userprofile u of
        Inl e \<Rightarrow> Inl e
      | Inr None \<Rightarrow> Inr False
      | Inr (Some profile) \<Rightarrow>
     (case phone_number profile of
        None \<Rightarrow> Inr False
      | Some phone \<Rightarrow>
        if phone = [] then Inr False
        else
     (case TwilioSMSChannel_try w c phone subj msg of
        Inr b \<Rightarrow> Inr b
      | Inl (TwilioRestException code m) \<Rightarrow> Inr False
      | Inl e \<Rightarrow> Inr False))))"

definition TwilioSMSChannel :: "world \<Rightarrow> NotificationChannel" where
  "TwilioSMSChannel w =
     \<lparr>channel_name = ''sms'', send = TwilioSMSChannel_send w (TwilioSMSChannel_client w)\<rparr>"

subsection \<open>TelegramChannel\<close>

definition TelegramChannel_try :: "world \<Rightarrow> string \<Rightarrow> string \<Rightarrow> string \<Rightarrow> string \<Rightarrow> exn + bool" where
  "TelegramChannel_try w chat_id bot_token subj msg =
     (let full_message = (if subj \<noteq> [] then ''*'' @ subj @ ''*'' @ [CHR 0x0A] @ msg else msg);
          url = ''https://api.telegram.org/bot'' @ bot_token @ ''/sendMessage'';
          payload = [(''chat_id'', chat_id), (''text'', full_message), (''parse_mode'', ''Markdown'')]
      in case requests_post w url payload 10 of
           Inl e \<Rightarrow> Inl e
         | Inr resp \<Rightarrow>
        (case json resp of
           Inl e \<Rightarrow> Inl e
         | Inr response_data \<Rightarrow>
             if status_code resp = 200 \<and> jtruthy (map_of response_data ''ok'') then Inr True
             else Inr False))"

text \<open>
  \<^verbatim>\<open>send\<close> reads the profile and the bot token before its \<^verbatim>\<open>try\<close> block: an
  exception of the profile read is not caught.
\<close>

definition TelegramChannel_send :: "world \<Rightarrow> User \<Rightarrow> string \<Rightarrow> string \<Rightarrow> exn + bool" where
  "TelegramChannel_send w u subj msg =
     (case getattr_userprofile u of
        Inl e \<Rightarrow> Inl e
      | Inr None \<Rightarrow> Inr False
      | Inr (Some profile) \<Rightarrow>
     (case telegram_chat_id profile of
        None \<Rightarrow> Inr False
      | Some chat_id \<Rightarrow>
        if chat_id = [] then Inr False
        else
     (case TELEGRAM_BOT_TOKEN (settings w) of
        None \<Rightarrow> Inr False
      | Some bot_token \<Rightarrow>
        if bot_token = [] then Inr False
        else
     (case TelegramChannel_try w chat_id bot_token subj msg of
        Inr b \<Rightarrow> Inr b
      | Inl (RequestException m) \<Rightarrow> Inr False
      | Inl e \<Rightarrow> Inr False))))"

definition TelegramChannel :: "world \<Rightarrow> NotificationChannel" where
  "TelegramChannel w = \<lparr>channel_name = ''telegram'', send = TelegramChannel_send w\<rparr>"

section \<open>NotificationService\<close>

text \<open>
  \<^verbatim>\<open>service.py\<close>. The service object holds the message, the ordered channel list and
  the two fields the run writes: the name of the channel that delivered, and the names of
  the channels that did not.
\<close>

record NotificationService =
  user :: User
  subject :: string
  message :: string
  channels :: "NotificationChannel list"
  last_successful_channel :: "string option"
  failed_channels :: "string list"

definition NotificationService_init :: "world \<Rightarrow> User \<Rightarrow> string \<Rightarrow> string \<Rightarrow> NotificationService" where
  "NotificationService_init w u subj msg =
     \<lparr>user = u, subject = subj, message = msg,
      channels = [TelegramChannel w, EmailChannel w, TwilioSMSChannel w],
      last_successful_channel = None,
      failed_channels = []\<rparr>"

text \<open>
  The \<^verbatim>\<open>for channel in self.channels\<close> loop of \<^verbatim>\<open>send\<close>, together with the code
  after it, which runs when the loop ends without returning. A channel that returns
  \<^verbatim>\<open>True\<close> ends the run; one that returns \<^verbatim>\<open>False\<close> and one that raises are both
  appended to \<^verbatim>\<open>failed_channels\<close>, and the loop goes on.
\<close>

fun send_loop :: "NotificationChannel list \<Rightarrow> NotificationService \<Rightarrow> Notification \<Rightarrow> database
                    \<Rightarrow> bool \<times> NotificationService \<times> database" where
  "send_loop [] svc notification db =
     (let notification = notification\<lparr>status := ''failed''\<rparr>;
          db = save notification db
      in (False, svc, db))"
| "send_loop (channel # rest) svc notification db =
     (let name = channel_name channel in
      case send channel (user svc) (subject svc) (message svc) of
        Inr success \<Rightarrow>
          if success then
            (let notification = notification\<lparr>status := ''sent'', sent_via := name\<rparr>;
                 db = save notification db;
                 svc = svc\<lparr>last_successful_channel := Some name\<rparr>
             in (True, svc, db))
          else send_loop rest (svc\<lparr>failed_channels := failed_channels svc @ [name]\<rparr>) notification db
      | Inl e \<Rightarrow>
          send_loop rest (svc\<lparr>failed_channels := failed_channels svc @ [name]\<rparr>) notification db)"

definition NotificationService_send :: "NotificationService \<Rightarrow> database \<Rightarrow> bool \<times> NotificationService \<times> database" where
  "NotificationService_send svc db =
     (case objects_create (user svc) (subject svc) (message svc) ''pending'' db of
        (notification, db) \<Rightarrow> send_loop (channels svc) svc notification db)"

text \<open>
  The values of the dictionaries the package returns, and the report. The count of
  attempted channels tests the successful channel's name for truth, not for \<^verbatim>\<open>None\<close>.
\<close>

datatype pyval = PNone | PBool bool | PInt int | PStr string | PList "string list"

definition get_delivery_report :: "NotificationService \<Rightarrow> (string \<times> pyval) list" where
  "get_delivery_report svc =
     [(''success'', PBool (last_successful_channel svc \<noteq> None)),
      (''successful_channel'', (case last_successful_channel svc of None \<Rightarrow> PNone | Some c \<Rightarrow> PStr c)),
      (''failed_channels'', PList (failed_channels svc)),
      (''total_channels_attempted'',
         PInt (int (length (failed_channels svc)) + (if truthy (last_successful_channel svc) then 1 else 0)))]"

definition notify_user :: "world \<Rightarrow> User \<Rightarrow> string \<Rightarrow> string \<Rightarrow> database \<Rightarrow> NotificationService \<times> database" where
  "notify_user w u subj msg db =
     (case NotificationService_send (NotificationService_init w u subj msg) db of
        (_, svc, db) \<Rightarrow> (svc, db))"

section \<open>The Celery task\<close>

text \<open>
  \<^verbatim>\<open>tasks.py\<close>. The task is declared with \<^verbatim>\<open>max_retries=3\<close>. A message on the queue
  is one pending execution of the task: its arguments, the number of retries it has behind
  it (\<^verbatim>\<open>self.request.retries\<close>) and the delay it was sent with.
\<close>

definition max_retries :: nat where
  "max_retries = 3"

record task_message =
  msg_user_id :: nat
  msg_subject :: string
  msg_message :: string
  retries :: nat
  countdown :: nat

text \<open>
  \<^verbatim>\<open>self.retry(exc=.., countdown=..)\<close> of Celery's \<^verbatim>\<open>Task\<close>, for a task that a worker
  runs, as the library documents it. The call never returns: when the retries behind the
  request have reached \<^verbatim>\<open>max_retries\<close> it raises the exception it was given, or
  \<^verbatim>\<open>MaxRetriesExceededError\<close> when it was given none; otherwise it sends the task
  again, with one more retry behind it, and then raises \<^verbatim>\<open>Retry\<close> to end the
  execution. The result is the exception raised and the queue after the call.
\<close>

definition retry :: "task_message \<Rightarrow> exn option \<Rightarrow> nat \<Rightarrow> task_message list \<Rightarrow> exn \<times> task_message list" where
  "retry request exc delay queue =
     (if retries request + 1 > max_retries then
        (case exc of Some e \<Rightarrow> (e, queue) | None \<Rightarrow> (MaxRetriesExceededError, queue))
      else (Retry exc delay,
            queue @ [request\<lparr>retries := retries request + 1, countdown := delay\<rparr>]))"

text \<open>
  The body of the \<^verbatim>\<open>try\<close> block of the task: \<^verbatim>\<open>Inr\<close> is the dictionary it returns,
  \<^verbatim>\<open>Inl\<close> the exception that leaves the block.
\<close>

definition task_try :: "world \<Rightarrow> task_message \<Rightarrow> database \<Rightarrow> task_message list
                          \<Rightarrow> (exn + (string \<times> pyval) list) \<times> database \<times> task_message list" where
  "task_try w request db queue =
     (case User_objects_get w (msg_user_id request) of
        Inl e \<Rightarrow> (Inl e, db, queue)
      | Inr u \<Rightarrow>
     (case NotificationService_send (NotificationService_init w u (msg_subject request) (msg_message request)) db of
        (success, service, db) \<Rightarrow>
          if success then
            (Inr [(''status'', PStr ''success''),
                  (''user_id'', PInt (int (msg_user_id request))),
                  (''username'', PStr (username u)),
                  (''channel'', (case last_successful_channel service of None \<Rightarrow> PNone | Some c \<Rightarrow> PStr c)),
                  (''subject'', PStr (msg_subject request))], db, queue)
          else
            (case retry request None 60 queue of (e, queue) \<Rightarrow> (Inl e, db, queue))))"

text \<open>
  The task with its handlers, in the order of the source: \<^verbatim>\<open>User.DoesNotExist\<close>
  first, then every other \<^verbatim>\<open>Exception\<close>, which is retried after 30 seconds; only a
  \<^verbatim>\<open>MaxRetriesExceededError\<close> coming out of that retry is turned into a result.
\<close>

definition send_notification_task :: "world \<Rightarrow> task_message \<Rightarrow> database \<Rightarrow> task_message list
                          \<Rightarrow> (exn + (string \<times> pyval) list) \<times> database \<times> task_message list" where
  "send_notification_task w request db queue =
     (case task_try w request db queue of
        (Inr result, db, queue) \<Rightarrow> (Inr result, db, queue)
      | (Inl DoesNotExist, db, queue) \<Rightarrow>
          (Inr [(''status'', PStr ''error''),
                (''reason'', PStr ''user_not_found''),
                (''user_id'', PInt (int (msg_user_id request)))], db, queue)
      | (Inl e, db, queue) \<Rightarrow>
          (case retry request (Some e) 30 queue of
             (MaxRetriesExceededError, queue) \<Rightarrow>
               (Inr [(''status'', PStr ''error''),
                     (''reason'', PStr ''max_retries_exceeded''),
                     (''user_id'', PInt (int (msg_user_id request)))], db, queue)
           | (e', queue) \<Rightarrow> (Inl e', db, queue)))"

text \<open>
  The worker: it takes the pending executions off the queue one after the other, runs the
  task on each and collects what each execution returned or raised. Every message the task
  sends is executed in its turn. The run ends because a message sends at most two others,
  each with one more retry behind it, and none once \<^verbatim>\<open>max_retries\<close> is reached.
\<close>

function worker :: "world \<Rightarrow> database \<Rightarrow> task_message list \<Rightarrow> (exn + (string \<times> pyval) list) list" where
  "worker w db [] = []"
| "worker w db (request # queue) =
     (case send_notification_task w request db queue of
        (outcome, db', queue') \<Rightarrow> outcome # worker w db' queue')"
  by pat_completeness auto
termination
proof (relation "measure (\<lambda>(w, db, queue). \<Sum>m\<leftarrow>queue. (3::nat) ^ (max_retries - retries m))")
  show "wf (measure (\<lambda>(w, db, queue). \<Sum>m\<leftarrow>queue. (3::nat) ^ (max_retries - retries m)))"
    by simp
next
  fix w :: world and db :: database and request :: task_message and queue :: "task_message list"
    and outcome :: "exn + (string \<times> pyval) list" and y db' queue'
  assume xo: "(outcome, y) = send_notification_task w request db queue"
    and y: "(db', queue') = y"
  let ?wt = "\<lambda>m. (3::nat) ^ (max_retries - retries m)"
  let ?next = "\<lambda>d. request\<lparr>retries := retries request + 1, countdown := d\<rparr>"
  have retry_cases: "snd (retry request exc d q) = q \<or>
      (retries request < max_retries \<and> snd (retry request exc d q) = q @ [?next d])"
    for exc d q
    by (auto simp: retry_def split: option.splits)
  have try_cases: "snd (snd (task_try w request db queue)) = queue \<or>
      (retries request < max_retries \<and> snd (snd (task_try w request db queue)) = queue @ [?next 60])"
    using retry_cases [of None 60 queue]
    by (auto simp: task_try_def split: sum.splits prod.splits if_splits)
  obtain r1 d1 q1 where t: "task_try w request db queue = (r1, d1, q1)"
    by (cases "task_try w request db queue")
  have q': "queue' = q1 \<or> queue' = snd (retry request (Some (projl r1)) 30 q1)"
    using xo [symmetric] y [symmetric] t
    by (auto simp: send_notification_task_def split: sum.splits exn.splits prod.splits)
  from try_cases t have q1: "q1 = queue \<or> (retries request < max_retries \<and> q1 = queue @ [?next 60])"
    by simp
  have step: "retries request < max_retries \<Longrightarrow> 2 * ?wt (?next d) < ?wt request" for d
  proof -
    assume lt: "retries request < max_retries"
    then have "max_retries - retries request = Suc (max_retries - (retries request + 1))"
      by simp
    then have "?wt request = 3 * ?wt (?next d)"
      by simp
    then show ?thesis by simp
  qed
  have same: "?wt (?next d) = ?wt (?next d')" for d d'
    by simp
  have "(\<Sum>m\<leftarrow>queue'. ?wt m) < (\<Sum>m\<leftarrow>request # queue. ?wt m)"
    using q' q1 retry_cases [of "Some (projl r1)" 30 q1] step [of 60] step [of 30] same [of 30 60]
    by auto
  then show "((w, db', queue'), (w, db, request # queue))
      \<in> measure (\<lambda>(w, db, queue). \<Sum>m\<leftarrow>queue. (3::nat) ^ (max_retries - retries m))"
    by simp
qed

section \<open>Sample data\<close>

text \<open>
  The user of \<^verbatim>\<open>test_fallback.py\<close>, the same user after the test has switched its
  Telegram chat off, a user none of the channels can reach, the test user without a
  profile row, the test user at a moment when the profile table cannot be read, and an
  installation in which mail is configured and delivered while the Telegram API and
  Twilio cannot be reached.
\<close>

definition test_user :: User where
  "test_user = \<lparr>user_id = 1, username = ''test_user'', email = ''test@test.com'',
     userprofile = Inr \<lparr>phone_number = Some ''+79123456789'', telegram_chat_id = Some ''123456789''\<rparr>\<rparr>"

definition no_telegram_user :: User where
  "no_telegram_user = test_user\<lparr>userprofile :=
     Inr \<lparr>phone_number = Some ''+79123456789'', telegram_chat_id = None\<rparr>\<rparr>"

definition temp_failed_user :: User where
  "temp_failed_user = \<lparr>user_id = 2, username = ''temp_failed_user'', email = [],
     userprofile = Inr \<lparr>phone_number = None, telegram_chat_id = None\<rparr>\<rparr>"

definition no_profile_user :: User where
  "no_profile_user = test_user\<lparr>userprofile := Inl RelatedObjectDoesNotExist\<rparr>"

definition locked_profile_user :: User where
  "locked_profile_user = test_user\<lparr>userprofile := Inl (OperationalError ''database is locked'')\<rparr>"

definition test_settings :: settings where
  "test_settings = \<lparr>EMAIL_HOST_USER = Some ''mailer'', EMAIL_HOST_PASSWORD = Some ''secret'',
     EMAIL_HOST = Some ''smtp.test.com'', DEFAULT_FROM_EMAIL = Some ''noreply@test.com'',
     TWILIO_ACCOUNT_SID = Some ''AC1'', TWILIO_AUTH_TOKEN = Some ''token'',
     TWILIO_PHONE_NUMBER = Some ''+15005550006'', TELEGRAM_BOT_TOKEN = Some ''42:bot''\<rparr>"

definition test_world :: world where
  "test_world = \<lparr>settings = test_settings,
     send_mail = (\<lambda>subj msg from_email recipients. Inr 1),
     requests_post = (\<lambda>url payload timeout. Inl (RequestException ''connection refused'')),
     messages_create = (\<lambda>client body from_number to. Inl (TwilioRestException 20003 ''Authenticate'')),
     User_objects_get = (\<lambda>i. if i = 1 then Inr test_user
                              else if i = 2 then Inr temp_failed_user
                              else if i = 3 then Inl (OtherException ''database is locked'')
                              else Inl DoesNotExist)\<rparr>"

definition broken_mail_world :: world where
  "broken_mail_world = test_world\<lparr>send_mail := (\<lambda>subj msg from_email recipients. Inl (OtherException ''smtp down''))\<rparr>"

definition empty_database :: database where
  "empty_database = \<lparr>rows = Map.empty, next_pk = 1, journal = [], now = 1000\<rparr>"

text \<open>Three channel doubles: one that delivers, one that returns \<^verbatim>\<open>False\<close>, one that raises.\<close>

definition delivering :: "string \<Rightarrow> NotificationChannel" where
  "delivering name = \<lparr>channel_name = name, send = (\<lambda>u subj msg. Inr True)\<rparr>"

definition refusing :: "string \<Rightarrow> NotificationChannel" where
  "refusing name = \<lparr>channel_name = name, send = (\<lambda>u subj msg. Inr False)\<rparr>"

definition raising :: "string \<Rightarrow> NotificationChannel" where
  "raising name = \<lparr>channel_name = name, send = (\<lambda>u subj msg. Inl (ValueError ''unexpected''))\<rparr>"

definition first_message :: "nat \<Rightarrow> task_message" where
  "first_message uid = \<lparr>msg_user_id = uid, msg_subject = ''Test'', msg_message = ''Hello'',
     retries = 0, countdown = 0\<rparr>"

section \<open>The fallback loop\<close>

text \<open>
  A prefix of channels none of which delivers is passed over: the loop reaches the rest
  of the list with the names of the prefix appended, in order, to \<^verbatim>\<open>failed_channels\<close>.
\<close>


lemma send_loop_failed_prefix:
  "\<forall>c\<in>set pre. send c (user svc) (subject svc) (message svc) \<noteq> Inr True \<Longrightarrow>
   send_loop (pre @ rest) svc n db =
   send_loop rest (svc\<lparr>failed_channels := failed_channels svc @ map channel_name pre\<rparr>) n db"
proof (induction pre arbitrary: svc)
  case Nil
  then show ?case by simp
next
  case (Cons c pre)
  let ?svc = "svc\<lparr>failed_channels := failed_channels svc @ [channel_name c]\<rparr>"
  from Cons.prems have c: "send c (user svc) (subject svc) (message svc) \<noteq> Inr True"
    and rest: "\<forall>c\<in>set pre. send c (user ?svc) (subject ?svc) (message ?svc) \<noteq> Inr True"
    by simp_all
  from c have "send_loop ((c # pre) @ rest) svc n db = send_loop (pre @ rest) ?svc n db"
    by (cases "send c (user svc) (subject svc) (message svc)") (auto simp: Let_def)
  also have "\<dots> = send_loop rest (?svc\<lparr>failed_channels := failed_channels ?svc @ map channel_name pre\<rparr>) n db"
    using Cons.IH [OF rest] .
  finally show ?case by simp
qed

lemma send_loop_keeps_failed:
  "\<exists>more. failed_channels (fst (snd (send_loop chs svc n db))) = failed_channels svc @ more"
proof (induction chs arbitrary: svc)
  case Nil
  show ?case by (simp add: Let_def)
next
  case (Cons c chs)
  show ?case
    using Cons.IH [of "svc\<lparr>failed_channels := failed_channels svc @ [channel_name c]\<rparr>"]
    by (cases "send c (user svc) (subject svc) (message svc)") (auto simp: Let_def)
qed


lemma send_loop_raise_head:
  "send c (user svc) (subject svc) (message svc) = Inl e \<Longrightarrow>
   send_loop (c # rest) svc n db =
     send_loop rest (svc\<lparr>failed_channels := failed_channels svc @ [channel_name c]\<rparr>) n db"
  by (simp add: Let_def)



lemma send_loop_all_failed:
  assumes "\<forall>c\<in>set chs. send c (user svc) (subject svc) (message svc) \<noteq> Inr True"
  shows "send_loop chs svc n db =
     (False, svc\<lparr>failed_channels := failed_channels svc @ map channel_name chs\<rparr>,
      save (n\<lparr>status := ''failed''\<rparr>) db)"
  using send_loop_failed_prefix [OF assms, of "[]" n db] by (simp add: Let_def)




text \<open>
  C2. Whatever the channel list, when no channel delivers, \<^verbatim>\<open>send()\<close> returns
  \<^verbatim>\<open>False\<close>, the report has \<^verbatim>\<open>success\<close> false, no successful channel and the name of
  every channel in \<^verbatim>\<open>failed_channels\<close> (as many names as channels), and the row of the
  run is stored with status \<^verbatim>\<open>failed\<close>.
\<close>

theorem all_failed_report:
  assumes "\<forall>c\<in>set chs. send c u subj msg \<noteq> Inr True"
  shows "case NotificationService_send ((NotificationService_init w u subj msg)\<lparr>channels := chs\<rparr>) db of
           (returned, svc, db') \<Rightarrow>
             returned = False \<and>
             map_of (get_delivery_report svc) ''success'' = Some (PBool False) \<and>
             map_of (get_delivery_report svc) ''successful_channel'' = Some PNone \<and>
             map_of (get_delivery_report svc) ''failed_channels'' = Some (PList (map channel_name chs)) \<and>
             length (failed_channels svc) = length chs \<and>
             map_option status (rows db' (next_pk db)) = Some ''failed''"
proof -
  let ?svc = "(NotificationService_init w u subj msg)\<lparr>channels := chs\<rparr>"
  have fields: "user ?svc = u" "subject ?svc = subj" "message ?svc = msg" "channels ?svc = chs"
    "failed_channels ?svc = []" "last_successful_channel ?svc = None"
    by (simp_all add: NotificationService_init_def)
  obtain n db1 where cr: "objects_create u subj msg ''pending'' db = (n, db1)"
    by (cases "objects_create u subj msg ''pending'' db")
  then have pk: "pk n = next_pk db"
    by (auto simp: objects_create_def Let_def)
  have "send_loop chs ?svc n db1 =
     (False, ?svc\<lparr>failed_channels := failed_channels ?svc @ map channel_name chs\<rparr>,
      save (n\<lparr>status := ''failed''\<rparr>) db1)"
    using assms by (intro send_loop_all_failed) (simp add: fields)
  then show ?thesis
    by (simp add: NotificationService_send_def fields cr get_delivery_report_def save_def pk
        NotificationService_init_def)
qed

theorem all_failed_report_witness:
  "(send (refusing ''telegram'') test_user ''Test'' ''Hello'' = Inr False \<and>
    send (raising ''email'') test_user ''Test'' ''Hello'' = Inl (ValueError ''unexpected'')) \<and>
   (case NotificationService_send
           ((NotificationService_init test_world test_user ''Test'' ''Hello'')
              \<lparr>channels := [refusing ''telegram'', raising ''email'']\<rparr>)
           empty_database of
      (returned, svc, db') \<Rightarrow>
        returned = False \<and>
        map_of (get_delivery_report svc) ''success'' = Some (PBool False) \<and>
        map_of (get_delivery_report svc) ''successful_channel'' = Some PNone \<and>
        map_of (get_delivery_report svc) ''failed_channels'' = Some (PList [''telegram'', ''email'']) \<and>
        length (failed_channels svc) = 2 \<and>
        map_option status (rows db' (next_pk empty_database)) = Some ''failed'')"
proof -
  let ?chs = "[refusing ''telegram'', raising ''email'']"
  have h: "\<forall>c\<in>set ?chs. send c test_user ''Test'' ''Hello'' \<noteq> Inr True"
    by (simp add: refusing_def raising_def)
  show ?thesis
    using all_failed_report [where w = test_world and db = empty_database, OF h]
    by (simp add: refusing_def raising_def split: prod.splits)
qed

text \<open>
  C6. Whatever the channel list, when the run reaches channel \<open>i\<close> and its \<^verbatim>\<open>send\<close>
  raises, the run is the one that goes on with the channels after \<open>i\<close>, with the name of
  channel \<open>i\<close> appended to the failed channels: the exception is caught in the loop, the
  channel is recorded as failed, and the chain continues. The service returns a result,
  whose failed channels begin with the channels up to and including \<open>i\<close>.
\<close>

theorem raising_channel_is_skipped:
  assumes "i < length chs"
    and "\<forall>j<i. send (chs ! j) u subj msg \<noteq> Inr True"
    and "send (chs ! i) u subj msg = Inl e"
  shows "NotificationService_send ((NotificationService_init w u subj msg)\<lparr>channels := chs\<rparr>) db =
         (case objects_create u subj msg ''pending'' db of
            (notification, db1) \<Rightarrow>
              send_loop (drop (Suc i) chs)
                ((NotificationService_init w u subj msg)
                   \<lparr>channels := chs,
                    failed_channels := map channel_name (take i chs) @ [channel_name (chs ! i)]\<rparr>)
                notification db1) \<and>
         (\<exists>more. failed_channels (fst (snd (NotificationService_send
                    ((NotificationService_init w u subj msg)\<lparr>channels := chs\<rparr>) db))) =
                  map channel_name (take i chs) @ channel_name (chs ! i) # more)"
proof -
  let ?svc = "(NotificationService_init w u subj msg)\<lparr>channels := chs\<rparr>"
  have fields: "user ?svc = u" "subject ?svc = subj" "message ?svc = msg" "channels ?svc = chs"
    "failed_channels ?svc = []"
    by (simp_all add: NotificationService_init_def)
  obtain n db1 where cr: "objects_create u subj msg ''pending'' db = (n, db1)"
    by (cases "objects_create u subj msg ''pending'' db")
  from assms(1) have split: "chs = take (Suc i) chs @ drop (Suc i) chs"
    by simp
  have pre: "\<forall>c\<in>set (take (Suc i) chs). send c (user ?svc) (subject ?svc) (message ?svc) \<noteq> Inr True"
  proof
    fix c assume "c \<in> set (take (Suc i) chs)"
    then obtain j where j: "j < Suc i" "j < length chs" "chs ! j = c"
      by (auto simp: in_set_conv_nth)
    show "send c (user ?svc) (subject ?svc) (message ?svc) \<noteq> Inr True"
    proof (cases "j = i")
      case True
      with j assms(3) show ?thesis by (simp add: fields)
    next
      case False
      with j assms(2) show ?thesis by (auto simp: fields)
    qed
  qed
  have "send_loop chs ?svc n db1 = send_loop (take (Suc i) chs @ drop (Suc i) chs) ?svc n db1"
    by simp
  also have "\<dots> = send_loop (drop (Suc i) chs)
      (?svc\<lparr>failed_channels := failed_channels ?svc @ map channel_name (take (Suc i) chs)\<rparr>) n db1"
    by (rule send_loop_failed_prefix [OF pre])
  finally have run: "send_loop chs ?svc n db1 = send_loop (drop (Suc i) chs)
      (?svc\<lparr>failed_channels := map channel_name (take i chs) @ [channel_name (chs ! i)]\<rparr>) n db1"
    using assms(1) by (simp add: fields take_Suc_conv_app_nth)
  from send_loop_keeps_failed [of "drop (Suc i) chs"
      "?svc\<lparr>failed_channels := map channel_name (take i chs) @ [channel_name (chs ! i)]\<rparr>" n db1]
  obtain more where "failed_channels (fst (snd (send_loop chs ?svc n db1))) =
      map channel_name (take i chs) @ channel_name (chs ! i) # more"
    by (auto simp: run)
  with run show ?thesis
    by (auto simp: NotificationService_send_def fields cr)
qed

theorem raising_channel_is_skipped_witness:
  "(0 < length [raising ''telegram'', delivering ''email''] \<and>
    send ([raising ''telegram'', delivering ''email''] ! 0) test_user ''Test'' ''Hello''
      = Inl (ValueError ''unexpected'')) \<and>
   (case NotificationService_send
           ((NotificationService_init test_world test_user ''Test'' ''Hello'')
              \<lparr>channels := [raising ''telegram'', delivering ''email'']\<rparr>)
           empty_database of
      (returned, svc, db') \<Rightarrow>
        returned = True \<and> failed_channels svc = [''telegram''] \<and>
        last_successful_channel svc = Some ''email'')"
proof -
  let ?chs = "[raising ''telegram'', delivering ''email'']"
  have h1: "0 < length ?chs" by simp
  have h2: "\<forall>j<0. send (?chs ! j) test_user ''Test'' ''Hello'' \<noteq> Inr True" by simp
  have h3: "send (?chs ! 0) test_user ''Test'' ''Hello'' = Inl (ValueError ''unexpected'')"
    by (simp add: raising_def)
  show ?thesis
    using h3 raising_channel_is_skipped [where w = test_world and db = empty_database, OF h1 h2 h3]
    by (simp add: raising_def delivering_def objects_create_def Let_def split: prod.splits)
qed

text \<open>
  C7. With an empty channel list the run does not fail: \<^verbatim>\<open>send()\<close> returns \<^verbatim>\<open>False\<close>,
  the row is stored with status \<^verbatim>\<open>failed\<close>, and the report has \<^verbatim>\<open>success\<close> false, an
  empty \<^verbatim>\<open>failed_channels\<close> and a count of attempted channels of 0.
\<close>

theorem empty_channel_list:
  "case NotificationService_send ((NotificationService_init w u subj msg)\<lparr>channels := []\<rparr>) db of
     (returned, svc, db') \<Rightarrow>
       returned = False \<and>
       map_option status (rows db' (next_pk db)) = Some ''failed'' \<and>
       get_delivery_report svc =
         [(''success'', PBool False), (''successful_channel'', PNone),
          (''failed_channels'', PList []), (''total_channels_attempted'', PInt 0)]"
  by (simp add: NotificationService_send_def NotificationService_init_def objects_create_def
      save_def get_delivery_report_def truthy_def Let_def)

section \<open>The channels\<close>

text \<open>
  What the \<^verbatim>\<open>try\<close> blocks achieve. The email channel returns a boolean on every
  input. The SMS and the Telegram channel return a boolean whenever the read of the
  profile returns or finds no profile, and they raise exactly when that read raises
  anything else (for SMS, with a client configured). In all three, an exception inside the
  \<^verbatim>\<open>try\<close> block makes \<^verbatim>\<open>send\<close> return \<^verbatim>\<open>False\<close>.
\<close>

lemma EmailChannel_send_returns: "\<exists>b. EmailChannel_send w u subj msg = Inr b"
  by (auto simp: EmailChannel_send_def split: sum.splits)

lemma TwilioSMSChannel_send_returns:
  "getattr_userprofile u = Inr p \<Longrightarrow> \<exists>b. TwilioSMSChannel_send w client u subj msg = Inr b"
  by (auto simp: TwilioSMSChannel_send_def split: sum.splits option.splits exn.splits)

lemma TelegramChannel_send_returns:
  "getattr_userprofile u = Inr p \<Longrightarrow> \<exists>b. TelegramChannel_send w u subj msg = Inr b"
  by (auto simp: TelegramChannel_send_def split: sum.splits option.splits exn.splits)

lemma TwilioSMSChannel_send_raises_iff:
  "(\<exists>e. TwilioSMSChannel_send w client u subj msg = Inl e) \<longleftrightarrow>
   (client \<noteq> None \<and> (\<exists>e. getattr_userprofile u = Inl e))"
  by (auto simp: TwilioSMSChannel_send_def split: sum.splits option.splits exn.splits)

lemma TelegramChannel_send_raises_iff:
  "(\<exists>e. TelegramChannel_send w u subj msg = Inl e) \<longleftrightarrow> (\<exists>e. getattr_userprofile u = Inl e)"
  by (auto simp: TelegramChannel_send_def split: sum.splits option.splits exn.splits)

lemma try_errors_are_caught:
  "(EmailChannel_try w u subj msg = Inl e \<longrightarrow> EmailChannel_send w u subj msg = Inr False) \<and>
   (client = Some c \<and> getattr_userprofile u = Inr (Some profile) \<and> phone_number profile = Some phone
      \<and> TwilioSMSChannel_try w c phone subj msg = Inl e
    \<longrightarrow> TwilioSMSChannel_send w client u subj msg = Inr False) \<and>
   (getattr_userprofile u = Inr (Some profile) \<and> telegram_chat_id profile = Some chat_id
      \<and> TELEGRAM_BOT_TOKEN (settings w) = Some token
      \<and> TelegramChannel_try w chat_id token subj msg = Inl e
    \<longrightarrow> TelegramChannel_send w u subj msg = Inr False)"
  by (auto simp: EmailChannel_send_def TwilioSMSChannel_send_def TelegramChannel_send_def
      split: exn.splits)

text \<open>
  C5. The claim is that \<^verbatim>\<open>send\<close> of every channel never raises to its caller. The
  Telegram and the SMS channel read \<^verbatim>\<open>user.userprofile\<close> before their \<^verbatim>\<open>try\<close>
  block, and \<^verbatim>\<open>getattr\<close> with a default catches an \<^verbatim>\<open>AttributeError\<close> only. For the
  test user at a moment when the profile table cannot be read, \<^verbatim>\<open>send\<close> of both
  channels raises the database error to the caller, where the email channel returns
  \<^verbatim>\<open>True\<close>; for the test user without a profile row both return \<^verbatim>\<open>False\<close>.
\<close>

theorem profile_read_raises_out_of_send:
  "send (TelegramChannel test_world) locked_profile_user ''Test'' ''Hello''
     = Inl (OperationalError ''database is locked'') \<and>
   send (TwilioSMSChannel test_world) locked_profile_user ''Test'' ''Hello''
     = Inl (OperationalError ''database is locked'') \<and>
   send (EmailChannel test_world) locked_profile_user ''Test'' ''Hello'' = Inr True \<and>
   send (TelegramChannel test_world) no_profile_user ''Test'' ''Hello'' = Inr False \<and>
   send (TwilioSMSChannel test_world) no_profile_user ''Test'' ''Hello'' = Inr False"
  by (simp add: TelegramChannel_def EmailChannel_def TwilioSMSChannel_def
      TelegramChannel_send_def EmailChannel_send_def TwilioSMSChannel_send_def
      EmailChannel_try_def TwilioSMSChannel_client_def read_setting_def getattr_userprofile_def
      test_user_def no_profile_user_def locked_profile_user_def test_settings_def test_world_def)

section \<open>The stored row\<close>

text \<open>
  What the loop writes: one \<^verbatim>\<open>save\<close> of the row, with either status \<^verbatim>\<open>sent\<close> and the
  name of a channel of the list in \<^verbatim>\<open>sent_via\<close>, or status \<^verbatim>\<open>failed\<close> and
  \<^verbatim>\<open>sent_via\<close> untouched. No other field of the row is assigned.
\<close>

lemma send_loop_written:
  "\<exists>n'. snd (snd (send_loop chs svc n db)) = save n' db \<and> pk n' = pk n \<and> sent_at n' = sent_at n \<and>
      ((fst (send_loop chs svc n db) \<and> status n' = ''sent'' \<and> sent_via n' \<in> channel_name ` set chs) \<or>
       (\<not> fst (send_loop chs svc n db) \<and> status n' = ''failed'' \<and> sent_via n' = sent_via n))"
proof (induction chs arbitrary: svc)
  case Nil
  show ?case by (simp add: Let_def) (rule exI [of _ "n\<lparr>status := ''failed''\<rparr>"], simp)
next
  case (Cons c chs)
  show ?case
  proof (cases "send c (user svc) (subject svc) (message svc) = Inr True")
    case True
    then show ?thesis
      by (simp add: Let_def)
        (rule exI [of _ "n\<lparr>status := ''sent'', sent_via := channel_name c\<rparr>"], simp)
  next
    case False
    then have "send_loop (c # chs) svc n db =
      send_loop chs (svc\<lparr>failed_channels := failed_channels svc @ [channel_name c]\<rparr>) n db"
      by (cases "send c (user svc) (subject svc) (message svc)") (auto simp: Let_def)
    with Cons.IH [of "svc\<lparr>failed_channels := failed_channels svc @ [channel_name c]\<rparr>"]
    show ?thesis by auto
  qed
qed

lemma send_writes_once:
  "\<exists>final. snd (snd (NotificationService_send svc db)) =
       save final (snd (objects_create (user svc) (subject svc) (message svc) ''pending'' db)) \<and>
     pk final = next_pk db \<and> sent_at final = None \<and>
     ((fst (NotificationService_send svc db) \<and> status final = ''sent'' \<and>
       sent_via final \<in> channel_name ` set (channels svc)) \<or>
      (\<not> fst (NotificationService_send svc db) \<and> status final = ''failed'' \<and> sent_via final = []))"
proof -
  obtain n db1 where cr: "objects_create (user svc) (subject svc) (message svc) ''pending'' db = (n, db1)"
    by (cases "objects_create (user svc) (subject svc) (message svc) ''pending'' db")
  then have n: "pk n = next_pk db" "sent_at n = None" "sent_via n = []"
    by (auto simp: objects_create_def Let_def)
  from send_loop_written [of "channels svc" svc n db1] n cr show ?thesis
    by (auto simp: NotificationService_send_def)
qed


lemma sent_at_never_written:
  "map_option sent_at (rows (snd (snd (NotificationService_send svc db))) (next_pk db)) = Some None"
proof -
  from send_writes_once [of svc db] obtain final where
    "snd (snd (NotificationService_send svc db)) =
       save final (snd (objects_create (user svc) (subject svc) (message svc) ''pending'' db))"
    "pk final = next_pk db" "sent_at final = None"
    by auto
  then show ?thesis by (simp add: save_def)
qed

section \<open>Runs on the sample data\<close>

lemmas sample_defs = test_user_def no_telegram_user_def temp_failed_user_def no_profile_user_def
  locked_profile_user_def test_settings_def
  test_world_def broken_mail_world_def empty_database_def first_message_def

lemmas channel_defs = TelegramChannel_def EmailChannel_def TwilioSMSChannel_def
  TelegramChannel_send_def EmailChannel_send_def TwilioSMSChannel_send_def
  TelegramChannel_try_def EmailChannel_try_def TwilioSMSChannel_try_def
  TwilioSMSChannel_client_def read_setting_def getattr_userprofile_def

lemmas service_defs = NotificationService_init_def NotificationService_send_def
  objects_create_def save_def get_delivery_report_def notify_user_def Let_def

text \<open>
  C3. The claim is that the update of a successful run sets \<^verbatim>\<open>sent_at\<close> to the current
  time. The success branch of \<^verbatim>\<open>send\<close> assigns \<^verbatim>\<open>status\<close> and \<^verbatim>\<open>sent_via\<close> and
  saves; \<^verbatim>\<open>sent_at\<close>, which \<^verbatim>\<open>models.py\<close> declares nullable, is assigned nowhere.
  For the test user without a Telegram chat, whose mail is delivered, the run returns
  \<^verbatim>\<open>True\<close> and the stored row has status \<^verbatim>\<open>sent\<close>, \<^verbatim>\<open>sent_via\<close> \<^verbatim>\<open>email\<close>, the
  creation time, and \<^verbatim>\<open>sent_at\<close> still \<^verbatim>\<open>None\<close>.
\<close>

theorem sent_at_left_unset:
  "case NotificationService_send
          (NotificationService_init test_world no_telegram_user ''Test'' ''Hello'') empty_database of
     (returned, svc, db') \<Rightarrow>
       returned = True \<and>
       map_option status (rows db' 1) = Some ''sent'' \<and>
       map_option sent_via (rows db' 1) = Some ''email'' \<and>
       map_option created_at (rows db' 1) = Some 1000 \<and>
       map_option sent_at (rows db' 1) = Some None"
  by (simp add: sample_defs channel_defs service_defs)

text \<open>
  C8, as stated: the chat-bot channel is named \<^verbatim>\<open>chat\<close>, and when the recipient has no
  chat identifier and mail is delivered the report lists \<^verbatim>\<open>chat\<close> as the failed channel.
  On the test user without a Telegram chat the run succeeds through \<^verbatim>\<open>email\<close>, and the
  failed channel is reported as \<^verbatim>\<open>telegram\<close>, which is the name of the channel.
\<close>

theorem chat_name_counterexample:
  "(case notify_user test_world no_telegram_user ''Test'' ''Hello'' empty_database of
      (svc, db') \<Rightarrow>
        map_of (get_delivery_report svc) ''success'' = Some (PBool True) \<and>
        map_of (get_delivery_report svc) ''successful_channel'' = Some (PStr ''email'') \<and>
        map_of (get_delivery_report svc) ''failed_channels'' = Some (PList [''telegram'']) \<and>
        map_of (get_delivery_report svc) ''failed_channels'' \<noteq> Some (PList [''chat''])) \<and>
   channel_name (TelegramChannel test_world) \<noteq> ''chat''"
  by (simp add: sample_defs channel_defs service_defs)

text \<open>
  C8, amended: the chat-bot channel is named \<^verbatim>\<open>telegram\<close>. Whenever the recipient has no
  chat identifier (the profile read finds no profile, or a profile whose chat id is
  \<^verbatim>\<open>None\<close> or empty) and the email
  channel delivers, the report has \<^verbatim>\<open>success\<close> true, \<^verbatim>\<open>failed_channels\<close>
  \<^verbatim>\<open>["telegram"]\<close> and \<^verbatim>\<open>successful_channel\<close> \<^verbatim>\<open>email\<close>, and \<^verbatim>\<open>email\<close> is what
  is stored in \<^verbatim>\<open>sent_via\<close>.
\<close>

theorem telegram_name_in_report:
  assumes no_chat: "case getattr_userprofile u of Inl e \<Rightarrow> False | Inr None \<Rightarrow> True
                    | Inr (Some p) \<Rightarrow> \<not> truthy (telegram_chat_id p)"
    and mail: "EmailChannel_send w u subj msg = Inr True"
  shows "channel_name (TelegramChannel w) = ''telegram'' \<and>
    (case notify_user w u subj msg db of
       (svc, db') \<Rightarrow>
         map_of (get_delivery_report svc) ''success'' = Some (PBool True) \<and>
         map_of (get_delivery_report svc) ''failed_channels'' = Some (PList [''telegram'']) \<and>
         map_of (get_delivery_report svc) ''successful_channel'' = Some (PStr ''email'') \<and>
         map_option sent_via (rows db' (next_pk db)) = Some ''email'')"
proof -
  from no_chat have tg: "TelegramChannel_send w u subj msg = Inr False"
    by (auto simp: TelegramChannel_send_def truthy_def split: sum.splits option.splits)
  show ?thesis
    by (simp add: TelegramChannel_def EmailChannel_def TwilioSMSChannel_def service_defs tg mail)
qed

theorem telegram_name_in_report_witness:
  "((case getattr_userprofile no_telegram_user of Inl e \<Rightarrow> False | Inr None \<Rightarrow> True
                    | Inr (Some p) \<Rightarrow> \<not> truthy (telegram_chat_id p)) \<and>
    EmailChannel_send test_world no_telegram_user ''Test'' ''Hello'' = Inr True) \<and>
   channel_name (TelegramChannel test_world) = ''telegram'' \<and>
   (case notify_user test_world no_telegram_user ''Test'' ''Hello'' empty_database of
      (svc, db') \<Rightarrow>
        map_of (get_delivery_report svc) ''success'' = Some (PBool True) \<and>
        map_of (get_delivery_report svc) ''failed_channels'' = Some (PList [''telegram'']) \<and>
        map_of (get_delivery_report svc) ''successful_channel'' = Some (PStr ''email'') \<and>
        map_option sent_via (rows db' (next_pk empty_database)) = Some ''email'')"
proof -
  have h1: "case getattr_userprofile no_telegram_user of Inl e \<Rightarrow> False | Inr None \<Rightarrow> True
                    | Inr (Some p) \<Rightarrow> \<not> truthy (telegram_chat_id p)"
    by (simp add: no_telegram_user_def test_user_def truthy_def getattr_userprofile_def)
  have h2: "EmailChannel_send test_world no_telegram_user ''Test'' ''Hello'' = Inr True"
    by (simp add: sample_defs channel_defs)
  show ?thesis
    using h1 h2 telegram_name_in_report [OF h1 h2, of empty_database] by simp
qed

section \<open>The task\<close>

text \<open>
  C9. Whenever the lookup of the user raises \<^verbatim>\<open>User.DoesNotExist\<close>, the task returns
  the \<^verbatim>\<open>user_not_found\<close> result and leaves the queue and the table as they were: no
  retry is sent and no row is written.
\<close>

theorem user_not_found_is_terminal:
  assumes "User_objects_get w (msg_user_id request) = Inl DoesNotExist"
  shows "send_notification_task w request db queue =
     (Inr [(''status'', PStr ''error''),
           (''reason'', PStr ''user_not_found''),
           (''user_id'', PInt (int (msg_user_id request)))], db, queue)"
  using assms by (simp add: send_notification_task_def task_try_def)

theorem user_not_found_is_terminal_witness:
  "User_objects_get test_world (msg_user_id (first_message 7)) = Inl DoesNotExist \<and>
   send_notification_task test_world (first_message 7) empty_database [] =
     (Inr [(''status'', PStr ''error''),
           (''reason'', PStr ''user_not_found''),
           (''user_id'', PInt 7)], empty_database, [])"
proof -
  have h: "User_objects_get test_world (msg_user_id (first_message 7)) = Inl DoesNotExist"
    by (simp add: test_world_def first_message_def)
  show ?thesis
    using h user_not_found_is_terminal [OF h, of empty_database "[]"]
    by (simp add: first_message_def)
qed

text \<open>
  What one execution sends. A call of \<^verbatim>\<open>retry\<close> sends one message while retries
  remain and none afterwards; an execution sends at most two messages, each with one
  retry more than its own and never more than \<^verbatim>\<open>max_retries\<close>; an execution that has
  \<^verbatim>\<open>max_retries\<close> retries behind it sends nothing, and when its channels all fail it
  returns the \<^verbatim>\<open>max_retries_exceeded\<close> result.
\<close>

lemma retry_sends:
  "snd (retry request exc d queue) =
     (if retries request < max_retries
      then queue @ [request\<lparr>retries := retries request + 1, countdown := d\<rparr>]
      else queue)"
  by (auto simp: retry_def split: option.splits)

lemma task_try_queue:
  "snd (snd (task_try w request db queue)) = queue \<or>
   snd (snd (task_try w request db queue)) = snd (retry request None 60 queue)"
proof (cases "User_objects_get w (msg_user_id request)")
  case (Inl e)
  then show ?thesis by (simp add: task_try_def)
next
  case (Inr u)
  obtain success service db1 where s: "NotificationService_send
      (NotificationService_init w u (msg_subject request) (msg_message request)) db = (success, service, db1)"
    by (cases "NotificationService_send
      (NotificationService_init w u (msg_subject request) (msg_message request)) db")
  obtain e q where r: "retry request None 60 queue = (e, q)"
    by (cases "retry request None 60 queue")
  from Inr s r show ?thesis
    by (cases success) (simp_all add: task_try_def)
qed

lemma task_queue:
  "snd (snd (send_notification_task w request db queue)) = snd (snd (task_try w request db queue)) \<or>
   (\<exists>e. snd (snd (send_notification_task w request db queue)) =
      snd (retry request (Some e) 30 (snd (snd (task_try w request db queue)))))"
proof -
  obtain r1 d1 q1 where t: "task_try w request db queue = (r1, d1, q1)"
    by (cases "task_try w request db queue")
  show ?thesis
  proof (cases r1)
    case (Inr result)
    with t show ?thesis by (simp add: send_notification_task_def)
  next
    case (Inl e)
    obtain e' q' where r: "retry request (Some e) 30 q1 = (e', q')"
      by (cases "retry request (Some e) 30 q1")
    have "snd (snd (send_notification_task w request db queue)) = q1 \<or>
          snd (snd (send_notification_task w request db queue)) = q'"
      using t Inl r by (cases e; cases e') (simp_all add: send_notification_task_def)
    then show ?thesis
    proof
      assume "snd (snd (send_notification_task w request db queue)) = q1"
      with t show ?thesis by simp
    next
      assume "snd (snd (send_notification_task w request db queue)) = q'"
      with t r have "snd (snd (send_notification_task w request db queue)) =
          snd (retry request (Some e) 30 (snd (snd (task_try w request db queue))))"
        by simp
      then show ?thesis by blast
    qed
  qed
qed

lemma task_sends_within_budget:
  "\<exists>sent. snd (snd (send_notification_task w request db queue)) = queue @ sent \<and>
     length sent \<le> 2 \<and>
     (\<forall>m\<in>set sent. retries m = retries request + 1 \<and> retries m \<le> max_retries) \<and>
     (max_retries \<le> retries request \<longrightarrow> sent = [])"
proof -
  let ?m = "\<lambda>d. request\<lparr>retries := retries request + 1, countdown := d\<rparr>"
  let ?q1 = "snd (snd (task_try w request db queue))"
  let ?q = "snd (snd (send_notification_task w request db queue))"
  from task_try_queue [of w request db queue]
  have q1: "?q1 = queue \<or> (retries request < max_retries \<and> ?q1 = queue @ [?m 60])"
    by (simp add: retry_sends split: if_splits)
  from task_queue [of w request db queue]
  have q: "?q = ?q1 \<or> (retries request < max_retries \<and> ?q = ?q1 @ [?m 30])"
    by (auto simp: retry_sends split: if_splits)
  from q1 q consider
      "?q = queue @ []"
    | "retries request < max_retries" "?q = queue @ [?m 60]"
    | "retries request < max_retries" "?q = queue @ [?m 30]"
    | "retries request < max_retries" "?q = queue @ [?m 60, ?m 30]"
    by auto
  then show ?thesis
  proof cases
    case 1
    then show ?thesis by (intro exI [of _ "[]"]) simp
  next
    case 2
    then show ?thesis by (intro exI [of _ "[?m 60]"]) simp
  next
    case 3
    then show ?thesis by (intro exI [of _ "[?m 30]"]) simp
  next
    case 4
    then show ?thesis by (intro exI [of _ "[?m 60, ?m 30]"]) simp
  qed
qed

lemma exhausted_failure_is_reported:
  assumes "User_objects_get w (msg_user_id request) = Inr u"
    and "\<not> fst (NotificationService_send
                 (NotificationService_init w u (msg_subject request) (msg_message request)) db)"
    and "max_retries \<le> retries request"
  shows "fst (send_notification_task w request db queue) =
           Inr [(''status'', PStr ''error''),
                (''reason'', PStr ''max_retries_exceeded''),
                (''user_id'', PInt (int (msg_user_id request)))] \<and>
         snd (snd (send_notification_task w request db queue)) = queue"
  using assms
  by (auto simp: send_notification_task_def task_try_def retry_def split: prod.splits)

text \<open>
  C10. The claim is that an invocation is retried at most 3 times, 4 attempts in all.
  When every channel fails and retries remain, the \<^verbatim>\<open>Retry\<close> that
  \<^verbatim>\<open>self.retry(countdown=60)\<close> raises inside the \<^verbatim>\<open>try\<close> block is caught by
  \<^verbatim>\<open>except Exception\<close>, whose handler calls \<^verbatim>\<open>self.retry(exc=e, countdown=30)\<close>: the
  execution sends the task twice. For the user none of the channels can reach, the first
  execution leaves two messages on the queue, and the worker runs the task 15 times
  before the queue is empty.
\<close>

theorem retries_are_doubled:
  "snd (snd (send_notification_task test_world (first_message 2) empty_database [])) =
     [(first_message 2)\<lparr>retries := 1, countdown := 60\<rparr>,
      (first_message 2)\<lparr>retries := 1, countdown := 30\<rparr>] \<and>
   length (worker test_world empty_database [first_message 2]) = 15"
  by (simp add: send_notification_task_def task_try_def retry_def max_retries_def
      sample_defs channel_defs service_defs)

end
